theory Spec2Isabelle
  imports Complex_Main
begin

section \<open>Supersonic flow past a cone: the notebook's solver functions\<close>

text \<open>
  The source is one Jupyter notebook, \<^verbatim>\<open>supersonic-flow-past-a-cone.ipynb\<close>. Its code
  cells define the class \<^verbatim>\<open>InitialConditions\<close>, the module-level names \<^verbatim>\<open>setup\<close> and
  \<^verbatim>\<open>ob\<close>, and the functions \<^verbatim>\<open>oblique_shock_wave\<close>, \<^verbatim>\<open>taylor_maccoll\<close>, \<^verbatim>\<open>rk4\<close>,
  \<^verbatim>\<open>newton_raphson\<close> and \<^verbatim>\<open>central_differences\<close>.

  Conventions of the embedding.
  \<^item> A float64 is read as the real number it stands for: \<open>+\<close>, \<open>*\<close>, \<open>/\<close>, \<open>**2\<close>,
    \<^verbatim>\<open>np.sin\<close>, \<^verbatim>\<open>np.cos\<close>, \<^verbatim>\<open>np.tan\<close>, \<^verbatim>\<open>np.arctan\<close> and \<^verbatim>\<open>np.sqrt\<close> are the operations
    of \<^typ>\<open>real\<close>; the floats are finite. Rounding is not modelled, except where it
    decides whether an exception is raised: the square of a Python float (below). A
    numpy operation raises nothing: a division by zero or an overflow gives \<^verbatim>\<open>inf\<close> or
    \<^verbatim>\<open>nan\<close> with a warning, whereas \<open>x / 0 = 0\<close> in HOL: statements about values are
    made where the denominators are not zero.
  \<^item> A division of two Python floats raises \<^verbatim>\<open>ZeroDivisionError\<close> on a zero divisor,
    and a power of a Python float raises \<^verbatim>\<open>OverflowError\<close> when its result is not
    finite; both are branches of the model. Sums, differences and products of Python
    floats raise nothing. The attributes of \<^verbatim>\<open>setup\<close> are Python floats (the
    notebook builds it from the literals \<^verbatim>\<open>3.0, 30, 1.4\<close>); every value that went through
    a numpy function is a numpy scalar. An argument that is a divisor carries its kind
    (\<open>py_number\<close>).
  \<^item> The functions read module-level names. The module namespace is the record
    \<open>globals\<close>, passed in and returned. A name that no cell binds is a field of option
    type with value \<open>None\<close>; reading it raises \<^verbatim>\<open>NameError\<close>.
  \<^item> An exception is a value \<open>Inl e\<close>; it comes with the namespace as the statements
    before the raise left it.
\<close>

subsection \<open>Exceptions and subscripts\<close>

datatype py_error = NameError string | ZeroDivisionError | OverflowError | IndexError

text \<open>A number passed as an argument: a Python float or a numpy float64 scalar.\<close>

datatype py_number = PyFloat real | NpFloat real

fun num_val :: "py_number \<Rightarrow> real" where
  "num_val (PyFloat v) = v"
| "num_val (NpFloat v) = v"

fun is_py_float :: "py_number \<Rightarrow> bool" where
  "is_py_float (PyFloat v) = True"
| "is_py_float (NpFloat v) = False"

text \<open>
  \<^verbatim>\<open>v**2\<close> on a Python float \<open>v\<close> (IEEE double, round to nearest): the result is
  infinite, and \<^verbatim>\<open>OverflowError\<close> is raised, from half a unit in the last place above
  the largest double, \<open>2 ^ 1024 - 2 ^ 970\<close>; the result is \<open>0.0\<close>, and nothing is raised,
  up to half the least positive double, \<open>2 ^ -1075\<close>. For a double \<open>v\<close> the first is
  \<open>2 ^ 512 \<le> |v|\<close>.
\<close>

definition float_overflow :: real where
  "float_overflow = 2 ^ 1024 - 2 ^ 970"

definition float_underflow :: real where
  "float_underflow = 1 / 2 ^ 1075"

definition py_square_overflows :: "real \<Rightarrow> bool" where
  "py_square_overflows v = (float_overflow \<le> v\<^sup>2)"

definition py_square_is_zero :: "real \<Rightarrow> bool" where
  "py_square_is_zero v = (v\<^sup>2 \<le> float_underflow)"

text \<open>
  \<^verbatim>\<open>a[k]\<close> and \<^verbatim>\<open>a[k] = v\<close> on a one-dimensional array of \<open>n\<close> elements: an index from
  \<open>-n\<close> to \<open>-1\<close> counts from the end, and an index outside \<open>-n .. n-1\<close> raises
  \<^verbatim>\<open>IndexError\<close>.
\<close>

definition getitem :: "real list \<Rightarrow> int \<Rightarrow> py_error + real" where
  "getitem a k =
     (let n = int (length a); j = (if k < 0 then n + k else k)
      in if 0 \<le> j \<and> j < n then Inr (a ! nat j) else Inl IndexError)"

definition setitem :: "real list \<Rightarrow> int \<Rightarrow> real \<Rightarrow> py_error + real list" where
  "setitem a k v =
     (let n = int (length a); j = (if k < 0 then n + k else k)
      in if 0 \<le> j \<and> j < n then Inr (a[nat j := v]) else Inl IndexError)"

subsection \<open>The class InitialConditions and the module namespace\<close>

text \<open>
  \<^verbatim>\<open>
  class InitialConditions:
      def __init__(self,m1,beta,gamma):
          self.m1 = m1
          self.beta = beta*np.pi/180
          self.gamma = gamma
  \<close>
\<close>

record InitialConditions =
  m1 :: real
  beta :: real
  gamma :: real

definition InitialConditions_init :: "real \<Rightarrow> real \<Rightarrow> real \<Rightarrow> InitialConditions" where
  "InitialConditions_init m1_arg beta_arg gamma_arg =
     \<lparr>m1 = m1_arg, beta = beta_arg * pi / 180, gamma = gamma_arg\<rparr>"

text \<open>
  An object that takes an attribute \<^verbatim>\<open>m1\<close> by assignment; only that attribute is
  recorded.
\<close>

record py_object =
  m1_attr :: "real option"

text \<open>
  The module-level names the functions read or write: \<^verbatim>\<open>setup\<close> and \<^verbatim>\<open>ob\<close>, bound in
  the cell of \<^verbatim>\<open>oblique_shock_wave\<close>, and \<^verbatim>\<open>tem2_tesetup\<close> and \<^verbatim>\<open>gamma\<close>, which the
  functions use and no cell binds. Where a namespace binds them, \<^verbatim>\<open>tem2_tesetup\<close> is
  bound to an object that takes attributes and \<^verbatim>\<open>gamma\<close> to a float.
\<close>

record globals =
  g_setup :: InitialConditions
  g_ob :: "real list"
  g_tem2_tesetup :: "py_object option"
  g_gamma :: "real option"

text \<open>
  The namespace after the notebook's cells have run:
  \<^verbatim>\<open>setup = InitialConditions(3.0,30,1.4)\<close> and \<^verbatim>\<open>ob = np.zeros(2)\<close>.
\<close>

definition notebook_globals :: globals where
  "notebook_globals =
     \<lparr>g_setup = InitialConditions_init 3 30 (14 / 10), g_ob = [0, 0],
      g_tem2_tesetup = None, g_gamma = None\<rparr>"

text \<open>The same namespace with the two missing names bound (\<^verbatim>\<open>gamma = 1.4\<close>).\<close>

definition bound_globals :: globals where
  "bound_globals =
     notebook_globals\<lparr>g_tem2_tesetup := Some \<lparr>m1_attr = None\<rparr>, g_gamma := Some (14 / 10)\<rparr>"

text \<open>
  A returned array is a reference: \<^verbatim>\<open>oblique_shock_wave\<close> returns the very object bound
  to \<^verbatim>\<open>ob\<close>, whose elements are read from the namespace at the time of the read.
\<close>

datatype array_ref = OB

definition deref :: "globals \<Rightarrow> array_ref \<Rightarrow> real list" where
  "deref g r = (case r of OB \<Rightarrow> g_ob g)"

subsection \<open>oblique_shock_wave\<close>

text \<open>
  \<^verbatim>\<open>
  setup = InitialConditions(3.0,30,1.4)
  ob = np.zeros(2)

  def oblique_shock_wave():
      mn1 = setup.m1*np.sin(setup.beta)
      rho2_rho1 = ((setup.gamma + 1)*mn1**2)/(2 + (setup.gamma - 1)*mn1**2)
      pre2_pre1 = 1.0 + 2*setup.gamma/(setup.gamma + 1)*(mn1**2 - 1)
      # tem2_tesetup.m1 = relation between disturbed and undisturbed temperatures
      tem2_tesetup.m1 = pre2_pre1/rho2_rho1
      mn2 = np.sqrt((1.0 + 0.5*(setup.gamma - 1)*mn1**2)/(setup.gamma*mn1**2 - 0.5*(setup.gamma - 1)))
      delta = np.arctan(2*1/np.tan(setup.beta)*(mn1**2-1)/(setup.m1**2*(setup.gamma+np.cos(2*setup.beta)+2)))
      m2 = mn2/np.sin(setup.beta-delta)
      ob[0] = delta
      ob[1] = m2
      return ob
  \<close>
  (the other comments of the source are left out). The local quantities, each as a
  function of the object bound to \<^verbatim>\<open>setup\<close>:
\<close>

definition shock_mn1 :: "InitialConditions \<Rightarrow> real" where
  "shock_mn1 s = m1 s * sin (beta s)"

definition shock_rho2_rho1 :: "InitialConditions \<Rightarrow> real" where
  "shock_rho2_rho1 s =
     ((gamma s + 1) * (shock_mn1 s)\<^sup>2) / (2 + (gamma s - 1) * (shock_mn1 s)\<^sup>2)"

definition shock_pre2_pre1 :: "InitialConditions \<Rightarrow> real" where
  "shock_pre2_pre1 s = 1 + 2 * gamma s / (gamma s + 1) * ((shock_mn1 s)\<^sup>2 - 1)"

definition shock_mn2 :: "InitialConditions \<Rightarrow> real" where
  "shock_mn2 s =
     sqrt ((1 + 0.5 * (gamma s - 1) * (shock_mn1 s)\<^sup>2)
           / (gamma s * (shock_mn1 s)\<^sup>2 - 0.5 * (gamma s - 1)))"

definition shock_delta :: "InitialConditions \<Rightarrow> real" where
  "shock_delta s =
     arctan (2 * 1 / tan (beta s) * ((shock_mn1 s)\<^sup>2 - 1)
             / ((m1 s)\<^sup>2 * (gamma s + cos (2 * beta s) + 2)))"

definition shock_m2 :: "InitialConditions \<Rightarrow> real" where
  "shock_m2 s = shock_mn2 s / sin (beta s - shock_delta s)"

text \<open>
  The function. The only Python-float division is \<^verbatim>\<open>2*setup.gamma/(setup.gamma + 1)\<close>.
  The statement \<^verbatim>\<open>tem2_tesetup.m1 = ...\<close> evaluates its right-hand side, then looks the
  name \<^verbatim>\<open>tem2_tesetup\<close> up. The only Python-float power is \<^verbatim>\<open>setup.m1**2\<close> in the
  statement of \<^verbatim>\<open>delta\<close> (\<^verbatim>\<open>mn1\<close> is a numpy scalar). The two stores into \<^verbatim>\<open>ob\<close>
  follow, and the result is \<^verbatim>\<open>ob\<close> itself.
\<close>

definition oblique_shock_wave :: "globals \<Rightarrow> (py_error + array_ref) \<times> globals" where
  "oblique_shock_wave g =
     (let s = g_setup g in
      if gamma s + 1 = 0 then (Inl ZeroDivisionError, g)
      else
        (case g_tem2_tesetup g of
           None \<Rightarrow> (Inl (NameError ''tem2_tesetup''), g)
         | Some obj \<Rightarrow>
             (let g1 = g\<lparr>g_tem2_tesetup :=
                          Some (obj\<lparr>m1_attr := Some (shock_pre2_pre1 s / shock_rho2_rho1 s)\<rparr>)\<rparr>
              in if py_square_overflows (m1 s) then (Inl OverflowError, g1)
                 else
                   (case setitem (g_ob g1) 0 (shock_delta s) of
                      Inl e \<Rightarrow> (Inl e, g1)
                    | Inr ob1 \<Rightarrow>
                        (let g2 = g1\<lparr>g_ob := ob1\<rparr>
                         in case setitem (g_ob g2) 1 (shock_m2 s) of
                              Inl e \<Rightarrow> (Inl e, g2)
                            | Inr ob2 \<Rightarrow> (Inr OB, g2\<lparr>g_ob := ob2\<rparr>))))))"

subsection \<open>taylor_maccoll\<close>

text \<open>
  \<^verbatim>\<open>
  def taylor_maccoll(delta, m2):
      ob_array = oblique_shock_wave()
      tm = np.zeros(2)
      v_nondim = 1.0/np.sqrt(2.0/(setup.gamma-1)/m2**2+1.0)
      v_nondim_r = v_nondim*np.sqrt(1.0/(1.0+np.tan(setup.beta-delta)**2))
      v_nondim_theta = v_nondim_r*np.tan(setup.beta-delta)
      tm[0] = ob_array[0]
      tm[1] = v_nondim_theta
      tm[2] = (0.5*(gamma-1)*(1-v_nondim**2)*(2*v_nondim_r+v_nondim_theta/np.tan(delta))-
               v_nondim_r*v_nondim_theta**2)/(v_nondim_theta**2 + 0.5*(gamma-1)*(v_nondim**2-1))
      return tm
  \<close>
  \<^verbatim>\<open>2.0/(setup.gamma-1)\<close> is a division of Python floats. The quotient is then divided
  by \<^verbatim>\<open>m2**2\<close>. When \<^verbatim>\<open>m2\<close> is a Python float, the power raises \<^verbatim>\<open>OverflowError\<close> on
  overflow and the division raises \<^verbatim>\<open>ZeroDivisionError\<close> when the square is \<open>0.0\<close>; when
  it is a numpy scalar (as an element of \<^verbatim>\<open>ob\<close> is), neither raises. \<^verbatim>\<open>delta\<close> only
  enters a float subtraction and numpy functions, so its kind makes no difference. In
  the last assignment \<^verbatim>\<open>gamma\<close> is a module-level name, not \<^verbatim>\<open>setup.gamma\<close>; the
  right-hand side is evaluated before the store, and all its operations are numpy
  operations.
\<close>

definition tm_v_nondim :: "InitialConditions \<Rightarrow> real \<Rightarrow> real" where
  "tm_v_nondim s m2 = 1 / sqrt (2 / (gamma s - 1) / m2\<^sup>2 + 1)"

definition tm_v_nondim_r :: "InitialConditions \<Rightarrow> real \<Rightarrow> real \<Rightarrow> real" where
  "tm_v_nondim_r s delta m2 =
     tm_v_nondim s m2 * sqrt (1 / (1 + (tan (beta s - delta))\<^sup>2))"

definition tm_v_nondim_theta :: "InitialConditions \<Rightarrow> real \<Rightarrow> real \<Rightarrow> real" where
  "tm_v_nondim_theta s delta m2 = tm_v_nondim_r s delta m2 * tan (beta s - delta)"

text \<open>
  Numerator and denominator of the quotient assigned to \<^verbatim>\<open>tm[2]\<close>; \<open>gm\<close> is the value of
  the module-level name \<^verbatim>\<open>gamma\<close>.
\<close>

definition tm_numerator :: "real \<Rightarrow> real \<Rightarrow> real \<Rightarrow> real \<Rightarrow> real \<Rightarrow> real" where
  "tm_numerator gm delta v_nondim v_nondim_r v_nondim_theta =
     0.5 * (gm - 1) * (1 - v_nondim\<^sup>2) * (2 * v_nondim_r + v_nondim_theta / tan delta)
     - v_nondim_r * v_nondim_theta\<^sup>2"

definition tm_denominator :: "real \<Rightarrow> real \<Rightarrow> real \<Rightarrow> real" where
  "tm_denominator gm v_nondim v_nondim_theta =
     v_nondim_theta\<^sup>2 + 0.5 * (gm - 1) * (v_nondim\<^sup>2 - 1)"

text \<open>
  The right-hand side of the last assignment, evaluated in a namespace: the lookup of
  \<^verbatim>\<open>gamma\<close>, then the quotient.
\<close>

definition tm_quotient :: "globals \<Rightarrow> real \<Rightarrow> real \<Rightarrow> real \<Rightarrow> real \<Rightarrow> py_error + real" where
  "tm_quotient g delta v_nondim v_nondim_r v_nondim_theta =
     (case g_gamma g of
        None \<Rightarrow> Inl (NameError ''gamma'')
      | Some gm \<Rightarrow>
          Inr (tm_numerator gm delta v_nondim v_nondim_r v_nondim_theta
               / tm_denominator gm v_nondim v_nondim_theta))"

definition taylor_maccoll ::
  "globals \<Rightarrow> real \<Rightarrow> py_number \<Rightarrow> (py_error + real list) \<times> globals" where
  "taylor_maccoll g delta m2 =
     (case oblique_shock_wave g of
        (Inl e, g1) \<Rightarrow> (Inl e, g1)
      | (Inr ob_array, g1) \<Rightarrow>
          (let s = g_setup g1; tm = [0, 0] in
           if gamma s - 1 = 0 then (Inl ZeroDivisionError, g1)
           else if is_py_float m2 \<and> py_square_overflows (num_val m2)
             then (Inl OverflowError, g1)
           else if is_py_float m2 \<and> py_square_is_zero (num_val m2)
             then (Inl ZeroDivisionError, g1)
           else
             (let v_nondim = tm_v_nondim s (num_val m2);
                  v_nondim_r = tm_v_nondim_r s delta (num_val m2);
                  v_nondim_theta = tm_v_nondim_theta s delta (num_val m2)
              in case getitem (deref g1 ob_array) 0 of
                   Inl e \<Rightarrow> (Inl e, g1)
                 | Inr ob0 \<Rightarrow>
                     (case setitem tm 0 ob0 of
                        Inl e \<Rightarrow> (Inl e, g1)
                      | Inr tm1 \<Rightarrow>
                          (case setitem tm1 1 v_nondim_theta of
                             Inl e \<Rightarrow> (Inl e, g1)
                           | Inr tm2 \<Rightarrow>
                               (case tm_quotient g1 delta v_nondim v_nondim_r v_nondim_theta of
                                  Inl e \<Rightarrow> (Inl e, g1)
                                | Inr q \<Rightarrow>
                                    (case setitem tm2 2 q of
                                       Inl e \<Rightarrow> (Inl e, g1)
                                     | Inr tm3 \<Rightarrow> (Inr tm3, g1))))))))"

subsection \<open>rk4\<close>

text \<open>
  \<^verbatim>\<open>
  def rk4(dx,x,y):
      k1 = dx * f(x,y)
      k2 = dx * f(x + 0.5*dx, y + 0.5*k1)
      k3 = dx * f(x + 0.5*dx, y + 0.5*k2)
      k4 = dx * f(x + 1.0*dx, y + 1.0*k3)
      return (k1 + 2*k2 + 2*k3 + k4)/6.0
  \<close>
  \<^verbatim>\<open>f\<close> is a module-level name that no cell binds; it is a parameter here, a callable
  that returns a value or raises, so the model speaks of a namespace that binds it.
  The state \<open>y\<close> and the values of \<open>f\<close> range over a real vector space (a float, or
  numpy arrays of one shape). The cell's first line, \<^verbatim>\<open>y = np.zeros(100):\<close>, is not
  Python; the function is modelled as its text reads.
\<close>

definition rk4 ::
  "(real \<Rightarrow> 'a \<Rightarrow> py_error + 'a) \<Rightarrow> real \<Rightarrow> real \<Rightarrow> 'a::real_vector \<Rightarrow> py_error + 'a" where
  "rk4 f dx x y =
     (case f x y of
        Inl e \<Rightarrow> Inl e
      | Inr r1 \<Rightarrow>
          (let k1 = dx *\<^sub>R r1 in
           case f (x + 0.5 * dx) (y + 0.5 *\<^sub>R k1) of
             Inl e \<Rightarrow> Inl e
           | Inr r2 \<Rightarrow>
               (let k2 = dx *\<^sub>R r2 in
                case f (x + 0.5 * dx) (y + 0.5 *\<^sub>R k2) of
                  Inl e \<Rightarrow> Inl e
                | Inr r3 \<Rightarrow>
                    (let k3 = dx *\<^sub>R r3 in
                     case f (x + 1.0 * dx) (y + 1.0 *\<^sub>R k3) of
                       Inl e \<Rightarrow> Inl e
                     | Inr r4 \<Rightarrow>
                         (let k4 = dx *\<^sub>R r4
                          in Inr ((k1 + 2 *\<^sub>R k2 + 2 *\<^sub>R k3 + k4) /\<^sub>R 6.0))))))"

subsection \<open>central_differences\<close>

text \<open>
  \<^verbatim>\<open>
  def central_differences(x,y):
      eps = np.sqrt(np.finfo(float).eps)
      dydx = (y[i+1] - 2*y[i] + y[i-1])/eps**2
      return dydx
  \<close>
  \<^verbatim>\<open>np.finfo(float).eps\<close> is \<open>2 ^ -52\<close>. \<^verbatim>\<open>i\<close> is a module-level name that no cell
  binds; it is a parameter here, an integer. The body of \<^verbatim>\<open>newton_raphson\<close>, in the same cell, is a
  mixture of Fortran declarations and pseudocode and has no Python reading; it is not
  modelled.
\<close>

definition float_eps :: real where
  "float_eps = 1 / 2 ^ 52"

definition central_differences :: "int \<Rightarrow> 'x \<Rightarrow> real list \<Rightarrow> py_error + real" where
  "central_differences i x y =
     (let eps = sqrt float_eps in
      case getitem y (i + 1) of
        Inl e \<Rightarrow> Inl e
      | Inr y_next \<Rightarrow>
          (case getitem y i of
             Inl e \<Rightarrow> Inl e
           | Inr y_here \<Rightarrow>
               (case getitem y (i - 1) of
                  Inl e \<Rightarrow> Inl e
                | Inr y_prev \<Rightarrow> Inr ((y_next - 2 * y_here + y_prev) / eps\<^sup>2))))"

subsection \<open>Two calls in a row\<close>

text \<open>
  The namespace after \<^verbatim>\<open>oblique_shock_wave()\<close> has run in \<open>bound_globals\<close>, and the
  namespace after \<^verbatim>\<open>setup = InitialConditions(1.0,30,1.4)\<close> and a second call.
\<close>

definition after_first_call :: globals where
  "after_first_call = snd (oblique_shock_wave bound_globals)"

definition after_second_call :: globals where
  "after_second_call =
     snd (oblique_shock_wave
            (after_first_call\<lparr>g_setup := InitialConditions_init 1 30 (14 / 10)\<rparr>))"

subsection \<open>A derivative function that raises\<close>

text \<open>
  \<open>y' = 2 y + 1\<close>, raising \<^verbatim>\<open>ZeroDivisionError\<close> at the state \<open>y = c\<close>. From \<open>x = 0\<close>,
  \<open>y = 0\<close> with \<open>dx = 1\<close>, the four evaluations of \<open>rk4\<close> are at \<open>y = 0\<close>, \<open>1 / 2\<close>, \<open>1\<close>
  and \<open>3\<close>.
\<close>

definition raising_at :: "real \<Rightarrow> real \<Rightarrow> real \<Rightarrow> py_error + real" where
  "raising_at c x y = (if y = c then Inl ZeroDivisionError else Inr (2 * y + 1))"

subsection \<open>Two formulas as the specification words them\<close>

text \<open>
  The specification's Runge-Kutta step, for a derivative function that returns:
  \<^verbatim>\<open>
  k1 = dx * f(x, y)
  k2 = dx * f(x + dx/2, y + k1/2)
  k3 = dx * f(x + dx/2, y + k2/2)
  k4 = dx * f(x + dx, y + k3)
  y_next = y + (k1 + 2k2 + 2k3 + k4) / 6
  x_next = x + dx
  \<close>
\<close>

definition spec_rk4_step ::
  "(real \<Rightarrow> 'a \<Rightarrow> 'a) \<Rightarrow> real \<Rightarrow> real \<Rightarrow> 'a::real_vector \<Rightarrow> real \<times> 'a" where
  "spec_rk4_step f dx x y =
     (let k1 = dx *\<^sub>R f x y;
          k2 = dx *\<^sub>R f (x + dx / 2) (y + k1 /\<^sub>R 2);
          k3 = dx *\<^sub>R f (x + dx / 2) (y + k2 /\<^sub>R 2);
          k4 = dx *\<^sub>R f (x + dx) (y + k3)
      in (x + dx, y + (k1 + 2 *\<^sub>R k2 + 2 *\<^sub>R k3 + k4) /\<^sub>R 6))"

text \<open>
  The specification's derivative estimate: \<open>(F(p+h) - F(p-h)) / (2h)\<close> with
  \<open>h = sqrt(machine epsilon)\<close> scaled by \<open>max(1, |p|)\<close>.
\<close>

definition spec_central_difference :: "(real \<Rightarrow> real) \<Rightarrow> real \<Rightarrow> real" where
  "spec_central_difference F p =
     (let h = sqrt float_eps * max 1 \<bar>p\<bar> in (F (p + h) - F (p - h)) / (2 * h))"

section \<open>Basic facts\<close>

subsection \<open>Which exception, and what a call leaves behind\<close>

lemma square_in_range:
  "v\<^sup>2 \<le> 2 ^ 1000 \<Longrightarrow> \<not> py_square_overflows v"
  "1 / 2 ^ 1000 \<le> v\<^sup>2 \<Longrightarrow> \<not> py_square_is_zero v"
  by (simp_all add: py_square_overflows_def py_square_is_zero_def float_overflow_def
        float_underflow_def)

lemma square_of_small:
  "\<not> py_square_overflows 1" "\<not> py_square_overflows 3"
  "\<not> py_square_overflows 2" "\<not> py_square_is_zero 2"
  "\<not> py_square_overflows (13 / 5)" "\<not> py_square_is_zero (13 / 5)"
  "py_square_is_zero 0" "\<not> py_square_overflows 0"
  by (simp_all add: py_square_overflows_def py_square_is_zero_def float_overflow_def
        float_underflow_def power_divide)

text \<open>
  The outcome of \<open>oblique_shock_wave\<close> is decided by the namespace alone, in the order
  of the statements: the float division, the lookup of \<^verbatim>\<open>tem2_tesetup\<close>, the float
  power, the stores.
\<close>

lemma oblique_shock_wave_outcome:
  "fst (oblique_shock_wave g) =
     (if gamma (g_setup g) + 1 = 0 then Inl ZeroDivisionError
      else if g_tem2_tesetup g = None then Inl (NameError ''tem2_tesetup'')
      else if py_square_overflows (m1 (g_setup g)) then Inl OverflowError
      else if length (g_ob g) < 2 then Inl IndexError
      else Inr OB)"
  by (auto simp: oblique_shock_wave_def Let_def setitem_def split: option.splits sum.splits)

lemma oblique_shock_wave_returns:
  assumes "gamma (g_setup g) + 1 \<noteq> 0" and "g_tem2_tesetup g = Some obj"
    and "\<not> py_square_overflows (m1 (g_setup g))" and "2 \<le> length (g_ob g)"
  shows "oblique_shock_wave g =
           (Inr OB,
            g\<lparr>g_tem2_tesetup :=
                 Some (obj\<lparr>m1_attr :=
                        Some (shock_pre2_pre1 (g_setup g) / shock_rho2_rho1 (g_setup g))\<rparr>),
              g_ob := (g_ob g)[0 := shock_delta (g_setup g), 1 := shock_m2 (g_setup g)]\<rparr>)"
  using assms by (auto simp: oblique_shock_wave_def Let_def setitem_def)

lemma oblique_shock_wave_unbound:
  assumes "gamma (g_setup g) + 1 \<noteq> 0" and "g_tem2_tesetup g = None"
  shows "oblique_shock_wave g = (Inl (NameError ''tem2_tesetup''), g)"
  using assms by (simp add: oblique_shock_wave_def Let_def)

text \<open>
  \<open>taylor_maccoll\<close> raises on every path. After the call of \<open>oblique_shock_wave\<close> come
  the float division by \<^verbatim>\<open>setup.gamma-1\<close>, the float power \<^verbatim>\<open>m2**2\<close> and the division by
  it, the lookup of \<^verbatim>\<open>gamma\<close>, and the store into index 2 of the two-element \<^verbatim>\<open>tm\<close>.
\<close>

lemma taylor_maccoll_outcome:
  "fst (taylor_maccoll g delta m2) =
     Inl (if gamma (g_setup g) + 1 = 0 then ZeroDivisionError
          else if g_tem2_tesetup g = None then NameError ''tem2_tesetup''
          else if py_square_overflows (m1 (g_setup g)) then OverflowError
          else if length (g_ob g) < 2 then IndexError
          else if gamma (g_setup g) - 1 = 0 then ZeroDivisionError
          else if is_py_float m2 \<and> py_square_overflows (num_val m2) then OverflowError
          else if is_py_float m2 \<and> py_square_is_zero (num_val m2) then ZeroDivisionError
          else if g_gamma g = None then NameError ''gamma''
          else IndexError)"
proof (cases "gamma (g_setup g) + 1 = 0")
  case True
  then show ?thesis
    by (simp add: taylor_maccoll_def oblique_shock_wave_def Let_def)
next
  case g1: False
  show ?thesis
  proof (cases "g_tem2_tesetup g")
    case None
    with g1 show ?thesis
      by (simp add: taylor_maccoll_def oblique_shock_wave_def Let_def)
  next
    case (Some obj)
    with g1 show ?thesis
      by (auto simp: taylor_maccoll_def oblique_shock_wave_def tm_quotient_def Let_def
            setitem_def getitem_def deref_def split: option.splits sum.splits prod.splits)
  qed
qed

lemma taylor_maccoll_raises: "\<exists>e. fst (taylor_maccoll g delta m2) = Inl e"
  unfolding taylor_maccoll_outcome by blast

lemma taylor_maccoll_namespace:
  "snd (taylor_maccoll g delta m2) = snd (oblique_shock_wave g)"
  by (auto simp: taylor_maccoll_def Let_def split: option.splits sum.splits prod.splits)

lemma notebook_m1_in_range: "\<not> py_square_overflows (m1 (g_setup notebook_globals))"
  by (simp add: notebook_globals_def InitialConditions_init_def square_of_small)

subsection \<open>The notebook's configuration\<close>

lemma notebook_setup:
  "m1 (g_setup notebook_globals) = 3"
  "beta (g_setup notebook_globals) = pi / 6"
  "gamma (g_setup notebook_globals) = 14 / 10"
  by (simp_all add: notebook_globals_def InitialConditions_init_def)

lemma bound_setup: "g_setup bound_globals = g_setup notebook_globals"
  by (simp add: bound_globals_def)

lemma notebook_mn1: "shock_mn1 (g_setup notebook_globals) = 3 / 2"
  by (simp add: shock_mn1_def notebook_setup sin_30)

lemma notebook_mn2: "shock_mn2 (g_setup notebook_globals) = sqrt (29 / 59)"
  by (simp add: shock_mn2_def notebook_mn1 notebook_setup power2_eq_square)

lemma notebook_delta: "shock_delta (g_setup notebook_globals) = arctan (25 * sqrt 3 / 351)"
  by (simp add: shock_delta_def notebook_mn1 notebook_setup tan_30 cos_60 power2_eq_square)

lemma sin_diff_arctan:
  "sin (b - arctan t) = (sin b - cos b * t) / sqrt (1 + t\<^sup>2)"
  by (simp add: sin_diff sin_arctan cos_arctan diff_divide_distrib)

lemma notebook_m2: "shock_m2 (g_setup notebook_globals) = sqrt (302267 / 93633)"
proof -
  let ?t = "25 * sqrt 3 / 351"
  have t2: "?t\<^sup>2 = 1875 / 123201"
    by (simp add: power2_eq_square)
  have num: "sin (pi / 6) - cos (pi / 6) * ?t = 46 / 117"
    by (simp add: sin_30 cos_30)
  have "shock_m2 (g_setup notebook_globals)
        = sqrt (29 / 59) / ((46 / 117) / sqrt (1 + 1875 / 123201))"
    unfolding shock_m2_def notebook_mn2 notebook_delta notebook_setup sin_diff_arctan num t2 ..
  also have "\<dots> = sqrt (29 / 59) * sqrt (125076 / 123201) * (117 / 46)"
    by simp
  also have "\<dots> = sqrt (302267 / 93633)"
  proof -
    have "(302267 / 93633 :: real) = 29 / 59 * (125076 / 123201) * (117 / 46)\<^sup>2"
      by (simp add: power2_eq_square)
    then have "sqrt (302267 / 93633) = sqrt (29 / 59 * (125076 / 123201) * (117 / 46)\<^sup>2)"
      by (simp only:)
    also have "\<dots> = sqrt (29 / 59) * sqrt (125076 / 123201) * sqrt ((117 / 46)\<^sup>2)"
      by (simp only: real_sqrt_mult)
    also have "sqrt ((117 / 46)\<^sup>2) = (117 / 46 :: real)"
      by simp
    finally show ?thesis by (simp only:)
  qed
  finally show ?thesis .
qed

lemma notebook_m2_bounds:
  "17965 / 10000 < shock_m2 (g_setup notebook_globals)
   \<and> shock_m2 (g_setup notebook_globals) < 17975 / 10000"
proof
  show "17965 / 10000 < shock_m2 (g_setup notebook_globals)"
    unfolding notebook_m2 by (rule real_less_rsqrt) (simp add: power2_eq_square)
  show "shock_m2 (g_setup notebook_globals) < 17975 / 10000"
    unfolding notebook_m2 by (rule real_less_lsqrt) (simp_all add: power2_eq_square)
qed

subsection \<open>Bounds on arctan\<close>

lemma arctan_le_self: "0 \<le> x \<Longrightarrow> arctan x \<le> x"
proof -
  assume x: "0 \<le> x"
  have "(\<lambda>z. z - arctan z) 0 \<le> (\<lambda>z. z - arctan z) x"
  proof (rule DERIV_nonneg_imp_nondecreasing [OF x])
    fix z :: real
    have d: "((\<lambda>z. z - arctan z) has_real_derivative 1 - inverse (1 + z\<^sup>2)) (at z)"
      by (auto intro!: derivative_eq_intros)
    have "inverse (1 + z\<^sup>2) \<le> 1"
      by (simp add: inverse_le_1_iff)
    then show "\<exists>y. ((\<lambda>z. z - arctan z) has_real_derivative y) (at z) \<and> 0 \<le> y"
      using d by (intro exI [of _ "1 - inverse (1 + z\<^sup>2)"]) simp
  qed
  then show ?thesis by simp
qed

lemma arctan_ge_cubic: "0 \<le> x \<Longrightarrow> x - x ^ 3 / 3 \<le> arctan x"
proof -
  assume x: "0 \<le> x"
  have "(\<lambda>z. arctan z - z + z ^ 3 / 3) 0 \<le> (\<lambda>z. arctan z - z + z ^ 3 / 3) x"
  proof (rule DERIV_nonneg_imp_nondecreasing [OF x])
    fix z :: real
    have d: "((\<lambda>z. arctan z - z + z ^ 3 / 3) has_real_derivative
               inverse (1 + z\<^sup>2) - 1 + z\<^sup>2) (at z)"
      by (auto intro!: derivative_eq_intros)
    have pos: "0 < 1 + z\<^sup>2"
      by (simp add: add_pos_nonneg)
    have "inverse (1 + z\<^sup>2) - 1 + z\<^sup>2 = z ^ 4 / (1 + z\<^sup>2)"
      using pos by (simp add: field_simps power4_eq_xxxx power2_eq_square)
    moreover have "0 \<le> z ^ 4 / (1 + z\<^sup>2)"
      using pos by simp
    ultimately show
      "\<exists>y. ((\<lambda>z. arctan z - z + z ^ 3 / 3) has_real_derivative y) (at z) \<and> 0 \<le> y"
      using d by (intro exI [of _ "inverse (1 + z\<^sup>2) - 1 + z\<^sup>2"]) simp
  qed
  then show ?thesis by simp
qed

lemma sqrt3_bounds: "1732 / 1000 < sqrt 3 \<and> sqrt 3 < 1733 / 1000"
proof
  show "1732 / 1000 < sqrt 3"
    by (rule real_less_rsqrt) (simp add: power2_eq_square)
  show "sqrt 3 < 1733 / 1000"
    by (rule real_less_lsqrt) (simp_all add: power2_eq_square)
qed

lemma notebook_delta_bounds:
  "1225 / 10000 < shock_delta (g_setup notebook_globals)
   \<and> shock_delta (g_setup notebook_globals) < 1235 / 10000"
proof
  let ?t = "25 * sqrt 3 / 351"
  have lo: "1233 / 10000 < ?t" and hi: "?t < 1235 / 10000"
    using sqrt3_bounds by simp_all
  have t0: "0 \<le> ?t" by simp
  have "?t ^ 3 / 3 < (1235 / 10000) ^ 3 / 3"
    using hi t0 by (simp add: power_strict_mono)
  then have "1225 / 10000 < ?t - ?t ^ 3 / 3"
    using lo by (simp add: power3_eq_cube)
  also have "\<dots> \<le> arctan ?t"
    by (rule arctan_ge_cubic [OF t0])
  finally show "1225 / 10000 < shock_delta (g_setup notebook_globals)"
    by (simp only: notebook_delta)
  have "arctan ?t \<le> ?t"
    by (rule arctan_le_self [OF t0])
  then show "shock_delta (g_setup notebook_globals) < 1235 / 10000"
    using hi by (simp only: notebook_delta)
qed

subsection \<open>The shock relations for a supersonic normal component\<close>

lemma normal_mach_lin1: "g < P \<Longrightarrow> 1 < g \<Longrightarrow> 0 < P - 0.5 * (g - 1)" for P g :: real
  by argo

lemma normal_mach_lin2:
  "g < P \<Longrightarrow> 1 < u \<Longrightarrow> 1 + 0.5 * (P - u) < P - 0.5 * (g - 1)" for P g u :: real
  by argo

lemma normal_mach_ratio:
  fixes g u :: real
  assumes "1 < g" "1 < u"
  shows "0 < g * u - 0.5 * (g - 1)" "1 + 0.5 * (g - 1) * u < g * u - 0.5 * (g - 1)"
proof -
  have "g * 1 < g * u" using assms by (intro mult_strict_left_mono) simp_all
  then have gu: "g < g * u" by simp
  then show "0 < g * u - 0.5 * (g - 1)" using assms by (intro normal_mach_lin1)
  have "0.5 * (g - 1) * u = 0.5 * (g * u - u)" by (simp add: algebra_simps)
  then show "1 + 0.5 * (g - 1) * u < g * u - 0.5 * (g - 1)"
    using normal_mach_lin2 [OF gu assms(2)] by simp
qed

lemma poly_gap:
  fixes u k p q :: real
  assumes u: "1 < u" and k: "2 < k" and p: "0 < p" and q: "0 < q" and pq: "p + q = 1"
  shows "u\<^sup>2 * (k + 2 * q)\<^sup>2 + 4 * p * q * (u - 1)\<^sup>2 \<le> u * (u * k + 2 * q)\<^sup>2"
proof -
  have p': "p = 1 - q" using pq by simp
  have id: "u * (u * k + 2 * q)\<^sup>2 - (u\<^sup>2 * (k + 2 * q)\<^sup>2 + 4 * p * q * (u - 1)\<^sup>2)
            = (u - 1) * (u\<^sup>2 * k\<^sup>2 - 4 * q * (u - 1) - 4 * q\<^sup>2)"
    unfolding p' by (simp add: power2_eq_square algebra_simps)
  have q1: "q < 1" using p pq by simp
  have "4 * q * (u - 1) \<le> 4 * 1 * (u - 1)"
    using q1 u by (intro mult_right_mono mult_left_mono) simp_all
  moreover have "4 * q\<^sup>2 \<le> 4 * 1"
    using q q1 by (simp add: power2_eq_square mult_le_one)
  moreover have "4 * u \<le> 4 * u\<^sup>2"
    using u by (simp add: power2_eq_square)
  moreover have "4 * u\<^sup>2 \<le> k\<^sup>2 * u\<^sup>2"
  proof -
    have "2\<^sup>2 \<le> k\<^sup>2" using k by (intro power_mono) simp_all
    then show ?thesis by (intro mult_right_mono) simp_all
  qed
  ultimately have "0 \<le> u\<^sup>2 * k\<^sup>2 - 4 * q * (u - 1) - 4 * q\<^sup>2"
    by (simp add: algebra_simps)
  then have "0 \<le> (u - 1) * (u\<^sup>2 * k\<^sup>2 - 4 * q * (u - 1) - 4 * q\<^sup>2)"
    using u by simp
  then show ?thesis using id by linarith
qed

text \<open>
  With \<open>s = sin beta\<close>, \<open>c = cos beta\<close>, \<open>n = mn1\<close> and \<open>w = mn2\<^sup>2\<close>: the tangent \<open>t\<close>
  of the deflection angle is positive, and \<open>mn2\<^sup>2 (1 + t\<^sup>2) < (m1 sin (beta - delta))\<^sup>2 (1 + t\<^sup>2)\<close>.
\<close>

lemma shock_algebra:
  fixes n g s c :: real
  assumes g: "1 < g" and s: "0 < s" and c: "0 < c" and sc: "s\<^sup>2 + c\<^sup>2 = 1" and n: "1 < n"
  defines "G \<equiv> g + (c\<^sup>2 - s\<^sup>2) + 2"
  defines "t \<equiv> 2 * c * s * (n\<^sup>2 - 1) / (n\<^sup>2 * G)"
  defines "w \<equiv> (1 + 0.5 * (g - 1) * n\<^sup>2) / (g * n\<^sup>2 - 0.5 * (g - 1))"
  shows "0 < t" and "0 < w" and "0 < n - (n / s) * c * t"
    and "w * (1 + t\<^sup>2) < (n - (n / s) * c * t)\<^sup>2"
proof -
  have n2: "1 < n\<^sup>2" using n by (simp add: one_less_power)
  have s2: "0 < s\<^sup>2" and c2: "0 < c\<^sup>2" using s c by simp_all
  have G_eq: "G = (g + 1) + 2 * c\<^sup>2" using sc by (simp add: G_def algebra_simps)
  have Gpos: "0 < G" using g zero_le_power2 [of c] unfolding G_eq by linarith
  have npos: "0 < n" using n by simp
  show tpos: "0 < t"
    unfolding t_def using c s n2 Gpos npos by simp
  have "0 \<le> 0.5 * (g - 1) * n\<^sup>2" using g by simp
  then have num: "0 < 1 + 0.5 * (g - 1) * n\<^sup>2" by linarith
  have den: "0 < g * n\<^sup>2 - 0.5 * (g - 1)"
    by (rule normal_mach_ratio(1) [OF g n2])
  show wpos: "0 < w" unfolding w_def using num den by simp
  have "1 + 0.5 * (g - 1) * n\<^sup>2 < g * n\<^sup>2 - 0.5 * (g - 1)"
    by (rule normal_mach_ratio(2) [OF g n2])
  then have w1: "w < 1" unfolding w_def using den by simp
  have r: "n - (n / s) * c * t = (n\<^sup>2 * (g + 1) + 2 * c\<^sup>2) / (n * G)"
  proof -
    have "n - (n / s) * c * t = n - 2 * c\<^sup>2 * (n\<^sup>2 - 1) / (n * G)"
      unfolding t_def using s npos Gpos by (simp add: power2_eq_square field_simps)
    also have "\<dots> = (n\<^sup>2 * G - 2 * c\<^sup>2 * (n\<^sup>2 - 1)) / (n * G)"
      using npos Gpos by (simp add: power2_eq_square field_simps)
    also have "n\<^sup>2 * G - 2 * c\<^sup>2 * (n\<^sup>2 - 1) = n\<^sup>2 * (g + 1) + 2 * c\<^sup>2"
      by (simp add: G_eq algebra_simps)
    finally show ?thesis .
  qed
  have "0 < n\<^sup>2 * (g + 1)" using npos g by (intro mult_pos_pos) simp_all
  then have "0 < n\<^sup>2 * (g + 1) + 2 * c\<^sup>2"
    using zero_le_power2 [of c] by linarith
  then have rpos: "0 < (n\<^sup>2 * (g + 1) + 2 * c\<^sup>2) / (n * G)"
    using npos Gpos by simp
  show "0 < n - (n / s) * c * t"
    unfolding r by (rule rpos)
  have one_t: "1 + t\<^sup>2
               = ((n\<^sup>2)\<^sup>2 * G\<^sup>2 + 4 * s\<^sup>2 * c\<^sup>2 * (n\<^sup>2 - 1)\<^sup>2) / ((n\<^sup>2)\<^sup>2 * G\<^sup>2)"
    unfolding t_def using npos Gpos by (simp add: power2_eq_square field_simps)
  have gap: "(n\<^sup>2)\<^sup>2 * ((g + 1) + 2 * c\<^sup>2)\<^sup>2 + 4 * s\<^sup>2 * c\<^sup>2 * (n\<^sup>2 - 1)\<^sup>2
             \<le> n\<^sup>2 * (n\<^sup>2 * (g + 1) + 2 * c\<^sup>2)\<^sup>2"
    using poly_gap [of "n\<^sup>2" "g + 1" "s\<^sup>2" "c\<^sup>2"] n2 g s2 c2 sc by simp
  have sq: "((n\<^sup>2 * (g + 1) + 2 * c\<^sup>2) / (n * G))\<^sup>2
            = n\<^sup>2 * (n\<^sup>2 * (g + 1) + 2 * c\<^sup>2)\<^sup>2 / ((n\<^sup>2)\<^sup>2 * G\<^sup>2)"
    using npos Gpos by (simp add: power2_eq_square field_simps)
  have dpos: "0 < (n\<^sup>2)\<^sup>2 * G\<^sup>2" using npos Gpos by simp
  have le: "1 + t\<^sup>2 \<le> ((n\<^sup>2 * (g + 1) + 2 * c\<^sup>2) / (n * G))\<^sup>2"
    unfolding one_t sq using gap dpos by (simp add: G_eq divide_le_cancel)
  have tt: "0 < 1 + t\<^sup>2" by (simp add: add_pos_nonneg)
  have "w * (1 + t\<^sup>2) < 1 * (1 + t\<^sup>2)"
    using w1 tt by (intro mult_strict_right_mono)
  then show "w * (1 + t\<^sup>2) < (n - (n / s) * c * t)\<^sup>2"
    unfolding r using le by simp
qed

lemma deflection_form:
  fixes s c n G :: real
  assumes "0 < s" "0 < c" "0 < n" "0 < G"
  shows "2 * 1 / (s / c) * (n\<^sup>2 - 1) / ((n / s)\<^sup>2 * G)
         = 2 * c * s * (n\<^sup>2 - 1) / (n\<^sup>2 * G)"
  using assms by (simp add: field_simps power2_eq_square)

text \<open>
  The formulas of \<open>oblique_shock_wave\<close> on a valid configuration (free-stream Mach
  number above 1, shock angle between the Mach angle and a right angle, specific-heat
  ratio above 1): the deflection angle is positive and the Mach number drops.
\<close>

lemma shock_compressive:
  assumes M: "1 < m1 s" and g: "1 < gamma s"
    and lo: "arcsin (1 / m1 s) < beta s" and hi: "beta s < pi / 2"
  shows "0 < shock_delta s" and "shock_m2 s < m1 s"
proof -
  define M where "M = m1 s"
  define b where "b = beta s"
  define n where "n = shock_mn1 s"
  have Mpos: "0 < M" and M1: "1 < M" using M by (simp_all add: M_def)
  have inv: "0 < 1 / M" "1 / M < 1" using M1 by simp_all
  have a0: "0 \<le> arcsin (1 / M)"
    using inv by (intro arcsin_nonneg) simp
  have b0: "0 < b" using a0 lo by (simp add: M_def b_def)
  have a1: "- (pi / 2) \<le> arcsin (1 / M)"
    using a0 pi_gt_zero by linarith
  have lo': "arcsin (1 / M) < b" using lo by (simp add: M_def b_def)
  have b1: "b < pi / 2" using hi by (simp add: b_def)
  have sb: "0 < sin b" using b0 b1 by (intro sin_gt_zero) (simp_all add: field_simps)
  have cb: "0 < cos b" using b0 b1 by (intro cos_gt_zero_pi) simp_all
  have "sin (arcsin (1 / M)) < sin b"
    using a1 lo' b1 by (intro sin_monotone_2pi) simp_all
  then have "1 / M < sin b" using inv by simp
  then have n1: "1 < n"
    using Mpos
    by (simp add: n_def shock_mn1_def M_def [symmetric] b_def [symmetric] field_simps)
  have n_eq: "n = M * sin b" by (simp add: n_def shock_mn1_def M_def b_def)
  have M_eq: "M = n / sin b" using sb by (simp add: n_eq)
  have sc: "(sin b)\<^sup>2 + (cos b)\<^sup>2 = 1" by simp
  define G where "G = gamma s + ((cos b)\<^sup>2 - (sin b)\<^sup>2) + 2"
  define t where "t = 2 * cos b * sin b * (n\<^sup>2 - 1) / (n\<^sup>2 * G)"
  define w where
    "w = (1 + 0.5 * (gamma s - 1) * n\<^sup>2) / (gamma s * n\<^sup>2 - 0.5 * (gamma s - 1))"
  note alg = shock_algebra [OF g sb cb sc n1, folded G_def, folded t_def w_def]
  have npos: "0 < n" using n1 by simp
  have "G = gamma s + 1 + 2 * (cos b)\<^sup>2"
    unfolding G_def using sc by (simp add: algebra_simps)
  then have Gpos: "0 < G"
    using g zero_le_power2 [of "cos b"] by linarith
  have t_eq: "2 * 1 / tan b * (n\<^sup>2 - 1) / (M\<^sup>2 * (gamma s + cos (2 * b) + 2)) = t"
    unfolding t_def M_eq cos_double tan_def G_def [symmetric]
    by (rule deflection_form [OF sb cb npos Gpos])
  have d_eq: "shock_delta s = arctan t"
    unfolding shock_delta_def using t_eq by (simp add: n_def M_def b_def)
  show "0 < shock_delta s" unfolding d_eq using alg(1) by simp
  have mn2_eq: "shock_mn2 s = sqrt w"
    by (simp add: shock_mn2_def w_def n_def)
  have r_eq: "n - n / sin b * cos b * t = M * (sin b - cos b * t)"
    using sb by (simp add: M_eq field_simps)
  have rpos: "0 < M * (sin b - cos b * t)" using alg(3) by (simp only: r_eq)
  then have dpos: "0 < sin b - cos b * t" using Mpos by (simp add: zero_less_mult_iff)
  have "shock_m2 s = sqrt w / ((sin b - cos b * t) / sqrt (1 + t\<^sup>2))"
    unfolding shock_m2_def mn2_eq d_eq b_def [symmetric] sin_diff_arctan ..
  also have "\<dots> = sqrt (w * (1 + t\<^sup>2)) / (sin b - cos b * t)"
    by (simp add: real_sqrt_mult)
  also have "\<dots> < M"
  proof -
    have "sqrt (w * (1 + t\<^sup>2)) < M * (sin b - cos b * t)"
      using alg(4) rpos by (intro real_less_lsqrt) (simp_all only: r_eq less_imp_le)
    then show ?thesis using dpos by (simp add: field_simps)
  qed
  finally show "shock_m2 s < m1 s" by (simp add: M_def)
qed

subsection \<open>What a returning call of oblique_shock_wave leaves in ob\<close>

lemma namespace_fields:
  "g_tem2_tesetup bound_globals = Some \<lparr>m1_attr = None\<rparr>"
  "g_gamma bound_globals = Some (14 / 10)"
  "g_ob bound_globals = [0, 0]"
  "g_tem2_tesetup notebook_globals = None"
  "g_gamma notebook_globals = None"
  "g_ob notebook_globals = [0, 0]"
  by (simp_all add: bound_globals_def notebook_globals_def)

lemma oblique_shock_wave_result:
  assumes "gamma (g_setup g) + 1 \<noteq> 0" and "g_tem2_tesetup g = Some obj"
    and "\<not> py_square_overflows (m1 (g_setup g))" and "2 \<le> length (g_ob g)"
  shows "\<exists>g'. oblique_shock_wave g = (Inr OB, g')
              \<and> deref g' OB ! 0 = shock_delta (g_setup g)
              \<and> deref g' OB ! 1 = shock_m2 (g_setup g)"
proof -
  have len: "0 < length (g_ob g)" "1 < length (g_ob g)"
    using assms(4) by auto
  show ?thesis
    unfolding oblique_shock_wave_returns [OF assms]
    using len by (simp add: deref_def nth_list_update)
qed

lemma notebook_call_raises:
  "oblique_shock_wave notebook_globals = (Inl (NameError ''tem2_tesetup''), notebook_globals)"
  by (rule oblique_shock_wave_unbound) (simp_all add: notebook_setup namespace_fields)

text \<open>
  Where the name \<^verbatim>\<open>tem2_tesetup\<close> is bound and \<^verbatim>\<open>setup.m1**2\<close> is in the float range, a
  valid configuration gives a deflection angle that is not negative and a Mach number
  below the free-stream one.
\<close>

lemma oblique_shock_wave_compressive:
  assumes "1 < m1 (g_setup g)" and "1 < gamma (g_setup g)"
    and "arcsin (1 / m1 (g_setup g)) < beta (g_setup g)" and "beta (g_setup g) < pi / 2"
    and "g_tem2_tesetup g = Some obj" and "\<not> py_square_overflows (m1 (g_setup g))"
    and "2 \<le> length (g_ob g)"
  shows "\<exists>g'. oblique_shock_wave g = (Inr OB, g')
              \<and> 0 \<le> deref g' OB ! 0 \<and> deref g' OB ! 1 < m1 (g_setup g)"
proof -
  have gm: "gamma (g_setup g) + 1 \<noteq> 0" using assms(2) by simp
  from oblique_shock_wave_result [OF gm assms(5) assms(6) assms(7)]
    shock_compressive [OF assms(1-4)]
  show ?thesis by auto
qed

subsection \<open>The velocity components that taylor_maccoll forms\<close>

lemma tm_speed:
  "(tm_v_nondim_r s delta m2)\<^sup>2 + (tm_v_nondim_theta s delta m2)\<^sup>2 = (tm_v_nondim s m2)\<^sup>2"
proof -
  define T where "T = tan (beta s - delta)"
  have pos: "0 < 1 + T\<^sup>2" by (simp add: add_pos_nonneg)
  have r: "(tm_v_nondim_r s delta m2)\<^sup>2 = (tm_v_nondim s m2)\<^sup>2 * (1 / (1 + T\<^sup>2))"
    using pos by (simp add: tm_v_nondim_r_def T_def power_mult_distrib)
  have "(tm_v_nondim_r s delta m2)\<^sup>2 + (tm_v_nondim_theta s delta m2)\<^sup>2
        = (tm_v_nondim_r s delta m2)\<^sup>2 * (1 + T\<^sup>2)"
    by (simp add: tm_v_nondim_theta_def T_def power_mult_distrib algebra_simps)
  also have "\<dots> = (tm_v_nondim s m2)\<^sup>2"
    unfolding r using pos by simp
  finally show ?thesis .
qed

text \<open>
  Formed from a Mach number by the energy equation, the two components stay below the
  energy bound whatever the arguments are.
\<close>

lemma tm_energy_bound:
  assumes "1 < gamma s"
  shows "(tm_v_nondim_r s delta m2)\<^sup>2 + (tm_v_nondim_theta s delta m2)\<^sup>2
         < 2 / (gamma s - 1) + 1"
proof -
  define A where "A = 2 / (gamma s - 1) / m2\<^sup>2"
  have a: "0 \<le> A" using assms by (simp add: A_def)
  then have "1 / (A + 1) \<le> 1" by simp
  moreover have "(tm_v_nondim s m2)\<^sup>2 = 1 / (A + 1)"
    using a unfolding tm_v_nondim_def A_def [symmetric]
    by (simp add: power_divide add_nonneg_nonneg)
  moreover have "0 < 2 / (gamma s - 1)" using assms by simp
  ultimately show ?thesis unfolding tm_speed by linarith
qed

text \<open>A regular state: \<open>delta = pi / 6\<close>, \<open>m2 = 2\<close>, with denominator \<open>- 1 / 9\<close>.\<close>

lemma regular_state:
  "tm_v_nondim (g_setup notebook_globals) 2 = 2 / 3"
  "tm_v_nondim_r (g_setup notebook_globals) (pi / 6) 2 = 2 / 3"
  "tm_v_nondim_theta (g_setup notebook_globals) (pi / 6) 2 = 0"
proof -
  have "sqrt (9 / 4) = sqrt ((3 / 2)\<^sup>2)" by (simp add: power2_eq_square)
  then have r: "sqrt (9 / 4) = 3 / 2" by simp
  have "2 / (14 / 10 - 1) / 2\<^sup>2 + 1 = (9 / 4 :: real)" by (simp add: power2_eq_square)
  then show v: "tm_v_nondim (g_setup notebook_globals) 2 = 2 / 3"
    by (simp add: tm_v_nondim_def notebook_setup r)
  show "tm_v_nondim_r (g_setup notebook_globals) (pi / 6) 2 = 2 / 3"
    by (simp add: tm_v_nondim_r_def v notebook_setup)
  then show "tm_v_nondim_theta (g_setup notebook_globals) (pi / 6) 2 = 0"
    by (simp add: tm_v_nondim_theta_def notebook_setup)
qed

lemma arctan_sqrt3: "arctan (1 / sqrt 3) = pi / 6"
proof -
  have "arctan (tan (pi / 6)) = pi / 6"
    by (rule arctan_tan) (use pi_gt_zero in linarith)+
  then show ?thesis by (simp only: tan_30)
qed

text \<open>
  A singular state: \<open>delta = pi / 6 - arctan (5 / 12)\<close>, \<open>m2 = 13 / 5\<close>. The Mach number
  normal to the ray is \<open>1\<close> and the denominator is \<open>0\<close>.
\<close>

lemma singular_state:
  "0 < pi / 6 - arctan (5 / 12)"
  "tm_denominator (14 / 10) (tm_v_nondim (g_setup notebook_globals) (13 / 5))
     (tm_v_nondim_theta (g_setup notebook_globals) (pi / 6 - arctan (5 / 12)) (13 / 5)) = 0"
proof -
  have "(5 / 12) * sqrt 3 < 1" using sqrt3_bounds by simp
  then have "5 / 12 < 1 / sqrt 3" by (simp add: field_simps)
  then have "arctan (5 / 12) < arctan (1 / sqrt 3)" by (simp only: arctan_less_iff)
  then show "0 < pi / 6 - arctan (5 / 12)" by (simp add: arctan_sqrt3)
  let ?s = "g_setup notebook_globals"
  have v2: "(tm_v_nondim ?s (13 / 5))\<^sup>2 = 169 / 294"
    by (simp add: tm_v_nondim_def notebook_setup power_divide power2_eq_square)
  have b: "beta ?s - (pi / 6 - arctan (5 / 12)) = arctan (5 / 12)"
    by (simp add: notebook_setup)
  have s: "sqrt (144 / 169) = 12 / 13"
  proof -
    have "sqrt (144 / 169) = sqrt ((12 / 13)\<^sup>2)" by (simp add: power2_eq_square)
    then show ?thesis by simp
  qed
  have q: "1 / (1 + (5 / 12)\<^sup>2) = (144 / 169 :: real)" by (simp add: power2_eq_square)
  have th: "tm_v_nondim_theta ?s (pi / 6 - arctan (5 / 12)) (13 / 5)
             = tm_v_nondim ?s (13 / 5) * (5 / 13)"
    unfolding tm_v_nondim_theta_def tm_v_nondim_r_def b tan_arctan q s by simp
  have "(tm_v_nondim_theta ?s (pi / 6 - arctan (5 / 12)) (13 / 5))\<^sup>2 = 25 / 294"
    unfolding th power_mult_distrib v2 by (simp add: power2_eq_square)
  then show "tm_denominator (14 / 10) (tm_v_nondim ?s (13 / 5))
     (tm_v_nondim_theta ?s (pi / 6 - arctan (5 / 12)) (13 / 5)) = 0"
    by (simp add: tm_denominator_def v2)
qed

subsection \<open>rk4 and central_differences\<close>

lemma rk4_raises_what_f_raised:
  "rk4 f dx x y = Inl e \<Longrightarrow> \<exists>x' y'. f x' y' = Inl e"
  by (auto simp: rk4_def Let_def split: sum.splits)

text \<open>Each of the four evaluations of \<open>f\<close>, when it is the first to raise.\<close>

lemma rk4_stage1:
  "f x y = Inl e \<Longrightarrow> rk4 f dx x y = Inl e"
  by (simp add: rk4_def)

lemma rk4_stage2:
  "f x y = Inr r1 \<Longrightarrow> f (x + 0.5 * dx) (y + 0.5 *\<^sub>R (dx *\<^sub>R r1)) = Inl e
   \<Longrightarrow> rk4 f dx x y = Inl e"
  by (simp add: rk4_def Let_def)

lemma rk4_stage3:
  "f x y = Inr r1 \<Longrightarrow> f (x + 0.5 * dx) (y + 0.5 *\<^sub>R (dx *\<^sub>R r1)) = Inr r2
   \<Longrightarrow> f (x + 0.5 * dx) (y + 0.5 *\<^sub>R (dx *\<^sub>R r2)) = Inl e
   \<Longrightarrow> rk4 f dx x y = Inl e"
  by (simp add: rk4_def Let_def)

lemma rk4_stage4:
  "f x y = Inr r1 \<Longrightarrow> f (x + 0.5 * dx) (y + 0.5 *\<^sub>R (dx *\<^sub>R r1)) = Inr r2
   \<Longrightarrow> f (x + 0.5 * dx) (y + 0.5 *\<^sub>R (dx *\<^sub>R r2)) = Inr r3
   \<Longrightarrow> f (x + 1.0 * dx) (y + 1.0 *\<^sub>R (dx *\<^sub>R r3)) = Inl e
   \<Longrightarrow> rk4 f dx x y = Inl e"
  by (simp add: rk4_def Let_def)

lemma tm_quotient_returns:
  "g_gamma g = Some gm \<Longrightarrow>
   tm_quotient g delta v vr vt
   = Inr (tm_numerator gm delta v vr vt / tm_denominator gm v vt)"
  by (simp add: tm_quotient_def)

text \<open>For samples with both neighbours of \<open>i\<close> inside the array.\<close>

lemma central_differences_in_range:
  assumes "1 \<le> i" and "i + 1 < int (length y)"
  shows "central_differences i x y
         = Inr ((y ! nat (i + 1) - 2 * y ! nat i + y ! nat (i - 1)) / (sqrt float_eps)\<^sup>2)"
  using assms by (simp add: central_differences_def Let_def getitem_def)

text \<open>
  On \<open>y' = y\<close> the increment is the Taylor polynomial of \<open>y * (exp dx - 1)\<close> up to the
  fourth power of \<open>dx\<close>.
\<close>

lemma rk4_linear:
  "rk4 (\<lambda>x y. Inr y) dx x (y :: real)
   = Inr (y * (dx + dx\<^sup>2 / 2 + dx ^ 3 / 6 + dx ^ 4 / 24))"
  by (simp add: rk4_def Let_def power2_eq_square power3_eq_cube power4_eq_xxxx field_simps)

lemma eps_sq: "(sqrt float_eps)\<^sup>2 = float_eps"
  by (simp add: float_eps_def)

subsection \<open>The two calls evaluated\<close>

lemma bound_call:
  "oblique_shock_wave bound_globals =
     (Inr OB,
      bound_globals\<lparr>g_tem2_tesetup :=
          Some \<lparr>m1_attr = Some (shock_pre2_pre1 (g_setup notebook_globals)
                                 / shock_rho2_rho1 (g_setup notebook_globals))\<rparr>,
        g_ob := [shock_delta (g_setup notebook_globals),
                 shock_m2 (g_setup notebook_globals)]\<rparr>)"
proof -
  have gm: "gamma (g_setup bound_globals) + 1 \<noteq> 0"
    by (simp add: bound_setup notebook_setup)
  have len: "2 \<le> length (g_ob bound_globals)"
    by (simp add: namespace_fields)
  have r: "\<not> py_square_overflows (m1 (g_setup bound_globals))"
    by (simp add: bound_setup notebook_m1_in_range)
  show ?thesis
    unfolding oblique_shock_wave_returns [OF gm namespace_fields(1) r len]
    by (simp add: namespace_fields bound_setup)
qed

lemma second_call:
  "oblique_shock_wave (after_first_call\<lparr>g_setup := InitialConditions_init 1 30 (14 / 10)\<rparr>)
   = (Inr OB, after_second_call)
   \<and> g_ob after_second_call ! 0 = shock_delta (InitialConditions_init 1 30 (14 / 10))"
proof -
  let ?g = "after_first_call\<lparr>g_setup := InitialConditions_init 1 30 (14 / 10)\<rparr>"
  have gm: "gamma (g_setup ?g) + 1 \<noteq> 0"
    by (simp add: InitialConditions_init_def)
  obtain obj where b: "g_tem2_tesetup ?g = Some obj"
    by (simp add: after_first_call_def bound_call)
  have len: "2 \<le> length (g_ob ?g)"
    by (simp add: after_first_call_def bound_call)
  have r: "\<not> py_square_overflows (m1 (g_setup ?g))"
    by (simp add: InitialConditions_init_def square_of_small)
  from oblique_shock_wave_result [OF gm b r len]
  show ?thesis by (auto simp: after_second_call_def deref_def)
qed

lemma sonic_delta_negative: "shock_delta (InitialConditions_init 1 30 (14 / 10)) < 0"
  by (simp add: shock_delta_def shock_mn1_def InitialConditions_init_def sin_30 tan_30 cos_60
        power2_eq_square)

section \<open>The claims\<close>

subsection \<open>C1: the configuration 3.0, 30 degrees, 1.4\<close>

text \<open>
  C1, as amended. For \<^verbatim>\<open>setup = InitialConditions(3.0,30,1.4)\<close>, a call of
  \<open>oblique_shock_wave\<close> in a namespace that binds \<^verbatim>\<open>tem2_tesetup\<close> returns \<^verbatim>\<open>ob\<close> with
  \<open>ob[0]\<close>, the flow deflection angle, within \<open>0.0005\<close> of \<open>0.123\<close> rad and \<open>ob[1]\<close>, the
  post-shock Mach number, within \<open>0.0005\<close> of \<open>1.797\<close> (not \<open>2.255\<close>).
\<close>

theorem C1_shock_values:
  assumes "g_setup g = InitialConditions_init 3 30 (14 / 10)"
    and "g_tem2_tesetup g = Some obj" and "2 \<le> length (g_ob g)"
  shows "\<exists>g'. oblique_shock_wave g = (Inr OB, g')
              \<and> \<bar>deref g' OB ! 0 - 123 / 1000\<bar> < 5 / 10000
              \<and> \<bar>deref g' OB ! 1 - 1797 / 1000\<bar> < 5 / 10000"
proof -
  have s: "g_setup g = g_setup notebook_globals"
    using assms(1) by (simp add: notebook_globals_def)
  have gm: "gamma (g_setup g) + 1 \<noteq> 0"
    by (simp add: s notebook_setup)
  have d: "\<bar>shock_delta (g_setup g) - 123 / 1000\<bar> < 5 / 10000"
    using notebook_delta_bounds unfolding s by linarith
  have m: "\<bar>shock_m2 (g_setup g) - 1797 / 1000\<bar> < 5 / 10000"
    using notebook_m2_bounds unfolding s by linarith
  have r: "\<not> py_square_overflows (m1 (g_setup g))"
    unfolding s by (rule notebook_m1_in_range)
  from oblique_shock_wave_result [OF gm assms(2) r assms(3)] d m
  show ?thesis by auto
qed

text \<open>The namespace \<open>bound_globals\<close> meets the three hypotheses.\<close>

theorem C1_shock_values_witness:
  "\<exists>g'. oblique_shock_wave bound_globals = (Inr OB, g')
        \<and> \<bar>deref g' OB ! 0 - 123 / 1000\<bar> < 5 / 10000
        \<and> \<bar>deref g' OB ! 1 - 1797 / 1000\<bar> < 5 / 10000"
  using C1_shock_values [of bound_globals "\<lparr>m1_attr = None\<rparr>"]
  by (simp add: bound_globals_def notebook_globals_def)

text \<open>
  Against C1 as stated: in the notebook's namespace the call raises \<^verbatim>\<open>NameError\<close> and
  returns nothing; with the missing names bound it returns a post-shock Mach number
  below \<open>1.8\<close>, which is not approximately \<open>2.255\<close>.
\<close>

theorem C1_postshock_mach_counterexample:
  "oblique_shock_wave notebook_globals = (Inl (NameError ''tem2_tesetup''), notebook_globals)
   \<and> (\<exists>g'. oblique_shock_wave bound_globals = (Inr OB, g') \<and> deref g' OB ! 1 < 18 / 10)"
proof
  show "oblique_shock_wave notebook_globals
        = (Inl (NameError ''tem2_tesetup''), notebook_globals)"
    by (rule notebook_call_raises)
  have gm: "gamma (g_setup bound_globals) + 1 \<noteq> 0"
    by (simp add: bound_setup notebook_setup)
  have m: "shock_m2 (g_setup bound_globals) < 18 / 10"
    using notebook_m2_bounds unfolding bound_setup by simp
  have r: "\<not> py_square_overflows (m1 (g_setup bound_globals))"
    by (simp add: bound_setup notebook_m1_in_range)
  have "2 \<le> length (g_ob bound_globals)"
    by (simp add: namespace_fields)
  from oblique_shock_wave_result [OF gm namespace_fields(1) r this] m
  show "\<exists>g'. oblique_shock_wave bound_globals = (Inr OB, g') \<and> deref g' OB ! 1 < 18 / 10"
    by auto
qed

subsection \<open>C2: the derivative vector\<close>

text \<open>
  C2, at the state \<open>theta = delta = pi / 6\<close>, \<open>m2 = 2\<close> under the notebook's \<^verbatim>\<open>setup\<close>.
  The angle is positive and the denominator is \<open>- 1 / 9\<close>, away from zero. The call
  \<^verbatim>\<open>taylor_maccoll(np.pi/6, 2.0)\<close> returns no derivative vector: in the notebook's
  namespace it raises \<^verbatim>\<open>NameError\<close>, and with the two missing names bound it raises
  \<^verbatim>\<open>IndexError\<close> at the store of the quotient.
\<close>

theorem C2_call_raises:
  "0 < pi / 6
   \<and> tm_denominator (14 / 10) (tm_v_nondim (g_setup notebook_globals) 2)
         (tm_v_nondim_theta (g_setup notebook_globals) (pi / 6) 2) = - 1 / 9
   \<and> fst (taylor_maccoll notebook_globals (pi / 6) (PyFloat 2))
       = Inl (NameError ''tem2_tesetup'')
   \<and> fst (taylor_maccoll bound_globals (pi / 6) (PyFloat 2)) = Inl IndexError"
  by (simp add: regular_state tm_denominator_def taylor_maccoll_outcome namespace_fields
        bound_setup notebook_setup notebook_m1_in_range square_of_small power2_eq_square)

subsection \<open>C3: a compressive shock\<close>

text \<open>
  C3, at the notebook's own configuration. It is valid: the free-stream Mach number
  \<open>3\<close> is above \<open>1\<close>, the shock angle \<open>pi / 6\<close> lies strictly between the Mach angle
  \<open>arcsin (1 / 3)\<close> and \<open>pi / 2\<close>, and the specific-heat ratio is above \<open>1\<close>. The call of
  \<open>oblique_shock_wave\<close> raises \<^verbatim>\<open>NameError\<close> at the temperature-ratio statement and
  returns no deflection angle and no Mach number. (The formulas alone do what the
  claim says: \<open>shock_compressive\<close>, \<open>oblique_shock_wave_compressive\<close>.)
\<close>

theorem C3_notebook_call_raises:
  "1 < m1 (g_setup notebook_globals)
   \<and> arcsin (1 / m1 (g_setup notebook_globals)) < beta (g_setup notebook_globals)
   \<and> beta (g_setup notebook_globals) < pi / 2
   \<and> 1 < gamma (g_setup notebook_globals)
   \<and> oblique_shock_wave notebook_globals
       = (Inl (NameError ''tem2_tesetup''), notebook_globals)"
proof -
  have "arcsin (1 / 3) < arcsin (1 / 2)"
    by (rule arcsin_less_arcsin) simp_all
  then have "arcsin (1 / 3) < pi / 6" by simp
  then show ?thesis
    using notebook_call_raises by (simp add: notebook_setup)
qed

subsection \<open>C4: one Runge-Kutta step\<close>

text \<open>
  C4, as amended. For a derivative function that returns, \<open>rk4\<close> forms the four stages
  \<open>k1 .. k4\<close> of the classical rule and returns the increment
  \<open>(k1 + 2 k2 + 2 k3 + k4) / 6\<close>, which is the specification's next state minus \<open>y\<close>.
  It does not add \<open>y\<close> and returns no next \<open>x\<close>.
\<close>

theorem C4_rk4_increment:
  "rk4 (\<lambda>x y. Inr (f x y)) dx x y = Inr (snd (spec_rk4_step f dx x y) - y)"
  by (simp add: rk4_def spec_rk4_step_def Let_def)

text \<open>
  Against C4 as stated: for \<open>f = 1\<close>, \<open>dx = 1\<close>, \<open>x = 0\<close>, \<open>y = 5\<close> the next state is \<open>6\<close>
  at \<open>x = 1\<close>, and \<open>rk4\<close> returns \<open>1\<close>.
\<close>

theorem C4_next_state_counterexample:
  "rk4 (\<lambda>x y. Inr 1) 1 0 (5 :: real) = Inr 1
   \<and> spec_rk4_step (\<lambda>x y. 1) 1 0 (5 :: real) = (1, 6)"
  by (simp add: rk4_def spec_rk4_step_def Let_def)

subsection \<open>C5: a vanishing denominator\<close>

text \<open>
  C5, as amended. \<open>taylor_maccoll\<close> makes no test of the denominator and knows no
  singularity error. The outcome of a call does not depend on \<open>delta\<close>, so not on
  whether \<open>delta\<close> puts the state on the singular surface; and in a namespace that binds
  \<^verbatim>\<open>gamma\<close>, the right-hand side of the last assignment is evaluated without an
  exception for every state, whatever the denominator, zero included (where the
  denominator is not zero, its value is the quotient). \<open>rk4\<close> has no error handling:
  whichever of its four evaluations of \<open>f\<close> is the first to raise, \<open>rk4\<close> raises that
  same exception, and every exception \<open>rk4\<close> raises is one that an evaluation of \<open>f\<close>
  raised, as it was raised, with no step index and no \<open>x\<close> attached.
\<close>

theorem C5_no_singularity_check:
  "fst (taylor_maccoll g delta m2) = fst (taylor_maccoll g delta' m2)
   \<and> (g_gamma g = Some gm \<longrightarrow>
        (\<exists>q. tm_quotient g d v vr vt = Inr q
             \<and> (tm_denominator gm v vt \<noteq> 0 \<longrightarrow>
                  q = tm_numerator gm d v vr vt / tm_denominator gm v vt)))
   \<and> (f x y = Inl e \<longrightarrow> rk4 f dx x y = Inl e)
   \<and> (f x y = Inr r1 \<and> f (x + 0.5 * dx) (y + 0.5 *\<^sub>R (dx *\<^sub>R r1)) = Inl e
        \<longrightarrow> rk4 f dx x y = Inl e)
   \<and> (f x y = Inr r1 \<and> f (x + 0.5 * dx) (y + 0.5 *\<^sub>R (dx *\<^sub>R r1)) = Inr r2
        \<and> f (x + 0.5 * dx) (y + 0.5 *\<^sub>R (dx *\<^sub>R r2)) = Inl e
        \<longrightarrow> rk4 f dx x y = Inl e)
   \<and> (f x y = Inr r1 \<and> f (x + 0.5 * dx) (y + 0.5 *\<^sub>R (dx *\<^sub>R r1)) = Inr r2
        \<and> f (x + 0.5 * dx) (y + 0.5 *\<^sub>R (dx *\<^sub>R r2)) = Inr r3
        \<and> f (x + 1.0 * dx) (y + 1.0 *\<^sub>R (dx *\<^sub>R r3)) = Inl e
        \<longrightarrow> rk4 f dx x y = Inl e)
   \<and> (rk4 f dx x y = Inl e \<longrightarrow> (\<exists>x' y'. f x' y' = Inl e))"
proof (intro conjI impI)
  show "fst (taylor_maccoll g delta m2) = fst (taylor_maccoll g delta' m2)"
    by (simp add: taylor_maccoll_outcome)
next
  assume "g_gamma g = Some gm"
  then show "\<exists>q. tm_quotient g d v vr vt = Inr q
      \<and> (tm_denominator gm v vt \<noteq> 0 \<longrightarrow>
           q = tm_numerator gm d v vr vt / tm_denominator gm v vt)"
    by (simp add: tm_quotient_returns)
next
  assume "f x y = Inl e"
  then show "rk4 f dx x y = Inl e" by (rule rk4_stage1)
next
  assume "f x y = Inr r1 \<and> f (x + 0.5 * dx) (y + 0.5 *\<^sub>R (dx *\<^sub>R r1)) = Inl e"
  then show "rk4 f dx x y = Inl e" by (blast intro: rk4_stage2)
next
  assume "f x y = Inr r1 \<and> f (x + 0.5 * dx) (y + 0.5 *\<^sub>R (dx *\<^sub>R r1)) = Inr r2
        \<and> f (x + 0.5 * dx) (y + 0.5 *\<^sub>R (dx *\<^sub>R r2)) = Inl e"
  then show "rk4 f dx x y = Inl e" by (blast intro: rk4_stage3)
next
  assume "f x y = Inr r1 \<and> f (x + 0.5 * dx) (y + 0.5 *\<^sub>R (dx *\<^sub>R r1)) = Inr r2
        \<and> f (x + 0.5 * dx) (y + 0.5 *\<^sub>R (dx *\<^sub>R r2)) = Inr r3
        \<and> f (x + 1.0 * dx) (y + 1.0 *\<^sub>R (dx *\<^sub>R r3)) = Inl e"
  then show "rk4 f dx x y = Inl e" by (blast intro: rk4_stage4)
next
  assume "rk4 f dx x y = Inl e"
  then show "\<exists>x' y'. f x' y' = Inl e" by (rule rk4_raises_what_f_raised)
qed

text \<open>
  In \<open>bound_globals\<close>: the call at the singular and at a regular \<open>delta\<close>, and the
  right-hand side at the singular state. \<open>rk4\<close> from \<open>x = 0\<close>, \<open>y = 0\<close> with \<open>dx = 1\<close> on
  derivative functions that raise at the first, the second, the third and the fourth
  evaluation.
\<close>

theorem C5_no_singularity_check_witness:
  "fst (taylor_maccoll bound_globals (pi / 6 - arctan (5 / 12)) (PyFloat (13 / 5)))
     = fst (taylor_maccoll bound_globals (pi / 6) (PyFloat (13 / 5)))
   \<and> (\<exists>q. tm_quotient bound_globals (pi / 6 - arctan (5 / 12))
          (tm_v_nondim (g_setup notebook_globals) (13 / 5))
          (tm_v_nondim_r (g_setup notebook_globals) (pi / 6 - arctan (5 / 12)) (13 / 5))
          (tm_v_nondim_theta (g_setup notebook_globals) (pi / 6 - arctan (5 / 12)) (13 / 5))
        = Inr q)
   \<and> rk4 (raising_at 0) 1 0 0 = Inl ZeroDivisionError
   \<and> rk4 (raising_at (1 / 2)) 1 0 0 = Inl ZeroDivisionError
   \<and> rk4 (raising_at 1) 1 0 0 = Inl ZeroDivisionError
   \<and> rk4 (raising_at 3) 1 0 0 = Inl ZeroDivisionError
   \<and> (\<exists>x' y'. raising_at 3 x' y' = Inl ZeroDivisionError)"
proof -
  note s1 = C5_no_singularity_check [where g = bound_globals and gm = "14 / 10"
      and delta = "pi / 6 - arctan (5 / 12)" and delta' = "pi / 6" and ?m2.0 = "PyFloat (13 / 5)"
      and d = "pi / 6 - arctan (5 / 12)"
      and v = "tm_v_nondim (g_setup notebook_globals) (13 / 5)"
      and vr = "tm_v_nondim_r (g_setup notebook_globals) (pi / 6 - arctan (5 / 12)) (13 / 5)"
      and vt = "tm_v_nondim_theta (g_setup notebook_globals) (pi / 6 - arctan (5 / 12)) (13 / 5)"
      and f = "raising_at 0" and x = 0 and y = 0 and e = ZeroDivisionError and dx = 1
      and ?r1.0 = 1 and ?r2.0 = 2 and ?r3.0 = 3]
  note s2 = C5_no_singularity_check [where g = bound_globals and gm = "14 / 10"
      and delta = "pi / 6 - arctan (5 / 12)" and delta' = "pi / 6" and ?m2.0 = "PyFloat (13 / 5)"
      and d = "pi / 6 - arctan (5 / 12)"
      and v = "tm_v_nondim (g_setup notebook_globals) (13 / 5)"
      and vr = "tm_v_nondim_r (g_setup notebook_globals) (pi / 6 - arctan (5 / 12)) (13 / 5)"
      and vt = "tm_v_nondim_theta (g_setup notebook_globals) (pi / 6 - arctan (5 / 12)) (13 / 5)"
      and f = "raising_at (1 / 2)" and x = 0 and y = 0 and e = ZeroDivisionError and dx = 1
      and ?r1.0 = 1 and ?r2.0 = 2 and ?r3.0 = 3]
  note s3 = C5_no_singularity_check [where g = bound_globals and gm = "14 / 10"
      and delta = "pi / 6 - arctan (5 / 12)" and delta' = "pi / 6" and ?m2.0 = "PyFloat (13 / 5)"
      and d = "pi / 6 - arctan (5 / 12)"
      and v = "tm_v_nondim (g_setup notebook_globals) (13 / 5)"
      and vr = "tm_v_nondim_r (g_setup notebook_globals) (pi / 6 - arctan (5 / 12)) (13 / 5)"
      and vt = "tm_v_nondim_theta (g_setup notebook_globals) (pi / 6 - arctan (5 / 12)) (13 / 5)"
      and f = "raising_at 1" and x = 0 and y = 0 and e = ZeroDivisionError and dx = 1
      and ?r1.0 = 1 and ?r2.0 = 2 and ?r3.0 = 3]
  note s4 = C5_no_singularity_check [where g = bound_globals and gm = "14 / 10"
      and delta = "pi / 6 - arctan (5 / 12)" and delta' = "pi / 6" and ?m2.0 = "PyFloat (13 / 5)"
      and d = "pi / 6 - arctan (5 / 12)"
      and v = "tm_v_nondim (g_setup notebook_globals) (13 / 5)"
      and vr = "tm_v_nondim_r (g_setup notebook_globals) (pi / 6 - arctan (5 / 12)) (13 / 5)"
      and vt = "tm_v_nondim_theta (g_setup notebook_globals) (pi / 6 - arctan (5 / 12)) (13 / 5)"
      and f = "raising_at 3" and x = 0 and y = 0 and e = ZeroDivisionError and dx = 1
      and ?r1.0 = 1 and ?r2.0 = 2 and ?r3.0 = 3]
  have "fst (taylor_maccoll bound_globals (pi / 6 - arctan (5 / 12)) (PyFloat (13 / 5)))
        = fst (taylor_maccoll bound_globals (pi / 6) (PyFloat (13 / 5)))"
    using s1 by blast
  moreover have "\<exists>q. tm_quotient bound_globals (pi / 6 - arctan (5 / 12))
          (tm_v_nondim (g_setup notebook_globals) (13 / 5))
          (tm_v_nondim_r (g_setup notebook_globals) (pi / 6 - arctan (5 / 12)) (13 / 5))
          (tm_v_nondim_theta (g_setup notebook_globals) (pi / 6 - arctan (5 / 12)) (13 / 5))
        = Inr q"
    using s1 namespace_fields(2) by blast
  moreover have "rk4 (raising_at 0) 1 0 0 = Inl ZeroDivisionError"
    using s1 by (simp add: raising_at_def)
  moreover have "rk4 (raising_at (1 / 2)) 1 0 0 = Inl ZeroDivisionError"
    using s2 by (simp add: raising_at_def)
  moreover have "rk4 (raising_at 1) 1 0 0 = Inl ZeroDivisionError"
    using s3 by (simp add: raising_at_def)
  moreover have r4: "rk4 (raising_at 3) 1 0 0 = Inl ZeroDivisionError"
    using s4 by (simp add: raising_at_def)
  moreover have "\<exists>x' y'. raising_at 3 x' y' = Inl ZeroDivisionError"
    using s4 r4 by blast
  ultimately show ?thesis by blast
qed

text \<open>
  Against C5 as stated: at \<open>delta = pi / 6 - arctan (5 / 12)\<close>, \<open>m2 = 13 / 5\<close> the
  denominator is exactly \<open>0\<close>. The right-hand side is evaluated without an exception,
  and the call raises what it raises at a regular state: \<^verbatim>\<open>IndexError\<close> at the store
  where the names are bound, \<^verbatim>\<open>NameError\<close> in the notebook's namespace.
\<close>

theorem C5_singular_denominator_counterexample:
  "0 < pi / 6 - arctan (5 / 12)
   \<and> tm_denominator (14 / 10) (tm_v_nondim (g_setup notebook_globals) (13 / 5))
        (tm_v_nondim_theta (g_setup notebook_globals) (pi / 6 - arctan (5 / 12)) (13 / 5)) = 0
   \<and> (\<exists>q. tm_quotient bound_globals (pi / 6 - arctan (5 / 12))
             (tm_v_nondim (g_setup notebook_globals) (13 / 5))
             (tm_v_nondim_r (g_setup notebook_globals) (pi / 6 - arctan (5 / 12)) (13 / 5))
             (tm_v_nondim_theta (g_setup notebook_globals) (pi / 6 - arctan (5 / 12)) (13 / 5))
           = Inr q)
   \<and> fst (taylor_maccoll bound_globals (pi / 6 - arctan (5 / 12)) (PyFloat (13 / 5)))
       = Inl IndexError
   \<and> fst (taylor_maccoll notebook_globals (pi / 6 - arctan (5 / 12)) (PyFloat (13 / 5)))
       = Inl (NameError ''tem2_tesetup'')"
  using singular_state
  by (simp add: taylor_maccoll_outcome tm_quotient_def namespace_fields bound_setup
        notebook_setup notebook_m1_in_range square_of_small)

subsection \<open>C6: no check of the configuration\<close>




subsection \<open>C7: the difference quotient\<close>

text \<open>
  C7, at the residual \<open>F p = p\<close> and \<open>p = 1\<close>, sampled at \<open>p - h\<close>, \<open>p\<close>, \<open>p + h\<close> with the
  specification's step \<open>h = sqrt (machine epsilon)\<close>. The specification's central
  difference is \<open>1\<close>, and so is the first difference \<open>(y[i+1] - y[i-1]) / (2 eps)\<close> of
  these samples. The call with \<open>i = 1\<close> returns \<open>0\<close>: what is named \<^verbatim>\<open>dydx\<close>, and is the
  divisor of Newton's step in \<^verbatim>\<open>newton_raphson\<close>, is the stencil of the second
  derivative.
\<close>

theorem C7_second_derivative_stencil:
  "central_differences 1 () [1 - sqrt float_eps, 1, 1 + sqrt float_eps] = Inr 0
   \<and> spec_central_difference (\<lambda>p. p) 1 = 1
   \<and> ((1 + sqrt float_eps) - (1 - sqrt float_eps)) / (2 * sqrt float_eps) = 1"
  by (simp add: central_differences_def Let_def getitem_def spec_central_difference_def
        float_eps_def)

subsection \<open>C9: the namespace as input and output\<close>

text \<open>
  C9, as amended. \<open>oblique_shock_wave\<close> takes no argument and works on the module
  namespace: what it returns is the array bound to \<^verbatim>\<open>ob\<close> itself, with elements \<open>0\<close>
  and \<open>1\<close> overwritten by the deflection angle and the Mach number computed from the
  object bound to \<^verbatim>\<open>setup\<close>; it leaves \<^verbatim>\<open>setup\<close> and \<^verbatim>\<open>gamma\<close> as they were.
  \<open>taylor_maccoll\<close> leaves the namespace as its call of \<open>oblique_shock_wave\<close> left it.
\<close>

theorem C9_shared_namespace:
  "(oblique_shock_wave g = (Inr r, g') \<longrightarrow>
      r = OB \<and> g_setup g' = g_setup g \<and> g_gamma g' = g_gamma g
      \<and> g_ob g' = (g_ob g)[0 := shock_delta (g_setup g), 1 := shock_m2 (g_setup g)])
   \<and> snd (taylor_maccoll g delta m2) = snd (oblique_shock_wave g)"
proof (intro conjI impI)
  assume a: "oblique_shock_wave g = (Inr r, g')"
  then have "fst (oblique_shock_wave g) = Inr r" by simp
  then obtain obj where c: "gamma (g_setup g) + 1 \<noteq> 0" "g_tem2_tesetup g = Some obj"
      "\<not> py_square_overflows (m1 (g_setup g))" "2 \<le> length (g_ob g)"
    unfolding oblique_shock_wave_outcome by (auto split: if_splits)
  from a show "r = OB" "g_setup g' = g_setup g" "g_gamma g' = g_gamma g"
    "g_ob g' = (g_ob g)[0 := shock_delta (g_setup g), 1 := shock_m2 (g_setup g)]"
    unfolding oblique_shock_wave_returns [OF c] by auto
next
  show "snd (taylor_maccoll g delta m2) = snd (oblique_shock_wave g)"
    by (rule taylor_maccoll_namespace)
qed

text \<open>The call in \<open>bound_globals\<close>.\<close>

theorem C9_shared_namespace_witness:
  "fst (oblique_shock_wave bound_globals) = Inr OB
   \<and> g_setup after_first_call = g_setup bound_globals
   \<and> g_ob after_first_call
       = [shock_delta (g_setup notebook_globals), shock_m2 (g_setup notebook_globals)]
   \<and> snd (taylor_maccoll bound_globals 0 (NpFloat 0)) = after_first_call"
  using C9_shared_namespace [of bound_globals OB after_first_call 0 "NpFloat 0"]
  by (simp add: after_first_call_def bound_call namespace_fields bound_setup)

text \<open>
  Against C9 as stated: the first call returns \<^verbatim>\<open>ob\<close> and has changed its elements;
  after \<^verbatim>\<open>setup = InitialConditions(1.0,30,1.4)\<close> a second call returns the same array,
  and the elements that the first call's result shows are no longer those it returned.
  In the notebook's own namespace, too, the outcome of the call without arguments
  follows the module-level \<^verbatim>\<open>setup\<close>: \<^verbatim>\<open>NameError\<close> as it stands,
  \<^verbatim>\<open>ZeroDivisionError\<close> after \<^verbatim>\<open>setup = InitialConditions(3.0,30,-1.0)\<close>.
\<close>

theorem C9_purity_counterexample:
  "fst (oblique_shock_wave bound_globals) = Inr OB
   \<and> deref after_first_call OB \<noteq> deref bound_globals OB
   \<and> fst (oblique_shock_wave
            (after_first_call\<lparr>g_setup := InitialConditions_init 1 30 (14 / 10)\<rparr>))
       = Inr OB
   \<and> deref after_second_call OB \<noteq> deref after_first_call OB
   \<and> fst (oblique_shock_wave notebook_globals) = Inl (NameError ''tem2_tesetup'')
   \<and> fst (oblique_shock_wave (notebook_globals\<lparr>g_setup := InitialConditions_init 3 30 (- 1)\<rparr>))
       = Inl ZeroDivisionError"
proof -
  have n: "fst (oblique_shock_wave notebook_globals) = Inl (NameError ''tem2_tesetup'')
    \<and> fst (oblique_shock_wave (notebook_globals\<lparr>g_setup := InitialConditions_init 3 30 (- 1)\<rparr>))
        = Inl ZeroDivisionError"
    by (simp add: oblique_shock_wave_outcome notebook_setup namespace_fields
          InitialConditions_init_def square_of_small)
  have d0: "0 < shock_delta (g_setup notebook_globals)"
    using notebook_delta_bounds by simp
  have a: "deref after_first_call OB
           = [shock_delta (g_setup notebook_globals), shock_m2 (g_setup notebook_globals)]"
    by (simp add: deref_def after_first_call_def bound_call)
  have "deref after_second_call OB ! 0 < 0"
    using second_call sonic_delta_negative by (simp add: deref_def)
  moreover have "0 < deref after_first_call OB ! 0"
    using d0 by (simp add: a)
  ultimately have "deref after_second_call OB \<noteq> deref after_first_call OB"
    by auto
  moreover have "deref after_first_call OB \<noteq> deref bound_globals OB"
    unfolding a using d0 by (simp add: deref_def namespace_fields)
  ultimately show ?thesis
    using second_call n by (simp add: bound_call)
qed

subsection \<open>C10: every call of taylor_maccoll raises\<close>

text \<open>
  C10, as amended. For every input \<open>(delta, m2)\<close> and in every namespace, a call of
  \<open>taylor_maccoll\<close> raises an exception and returns no vector. The exception is an
  \<^verbatim>\<open>IndexError\<close> only in a namespace that binds the name \<^verbatim>\<open>tem2_tesetup\<close>, and that
  either binds the name \<^verbatim>\<open>gamma\<close> too (the store into index 2 of the two-element
  \<^verbatim>\<open>tm\<close>) or has an \<^verbatim>\<open>ob\<close> of fewer than two elements.
\<close>

theorem C10_every_call_raises:
  "(\<exists>e. fst (taylor_maccoll g delta m2) = Inl e)
   \<and> (fst (taylor_maccoll g delta m2) = Inl IndexError \<longrightarrow>
        (\<exists>obj. g_tem2_tesetup g = Some obj)
        \<and> ((\<exists>gm. g_gamma g = Some gm) \<or> length (g_ob g) < 2))"
proof (intro conjI impI)
  show "\<exists>e. fst (taylor_maccoll g delta m2) = Inl e"
    by (rule taylor_maccoll_raises)
next
  assume "fst (taylor_maccoll g delta m2) = Inl IndexError"
  then show "\<exists>obj. g_tem2_tesetup g = Some obj"
    unfolding taylor_maccoll_outcome by (auto split: if_splits)
next
  assume "fst (taylor_maccoll g delta m2) = Inl IndexError"
  then show "(\<exists>gm. g_gamma g = Some gm) \<or> length (g_ob g) < 2"
    unfolding taylor_maccoll_outcome by (auto split: if_splits)
qed

text \<open>\<^verbatim>\<open>taylor_maccoll(0.1, 2.0)\<close> in \<open>bound_globals\<close>, which binds both names.\<close>

theorem C10_every_call_raises_witness:
  "fst (taylor_maccoll bound_globals (1 / 10) (PyFloat 2)) = Inl IndexError
   \<and> (\<exists>obj. g_tem2_tesetup bound_globals = Some obj)
   \<and> ((\<exists>gm. g_gamma bound_globals = Some gm) \<or> length (g_ob bound_globals) < 2)"
  using C10_every_call_raises [of bound_globals "1 / 10" "PyFloat 2"]
  by (simp add: taylor_maccoll_outcome namespace_fields bound_setup notebook_setup
        notebook_m1_in_range square_of_small)

text \<open>
  Against C10 as stated: in the notebook's namespace \<^verbatim>\<open>taylor_maccoll(0.1, 2.0)\<close> raises
  \<^verbatim>\<open>NameError\<close> for \<^verbatim>\<open>tem2_tesetup\<close>, and with that name bound it raises \<^verbatim>\<open>NameError\<close>
  for \<^verbatim>\<open>gamma\<close>; with both names bound, \<^verbatim>\<open>taylor_maccoll(0.1, 0.0)\<close> raises
  \<^verbatim>\<open>ZeroDivisionError\<close> and \<^verbatim>\<open>taylor_maccoll(0.1, 2.0**600)\<close> raises \<^verbatim>\<open>OverflowError\<close>.
  None of the four is an index error.
\<close>

theorem C10_index_error_counterexample:
  "fst (taylor_maccoll notebook_globals (1 / 10) (PyFloat 2))
     = Inl (NameError ''tem2_tesetup'')
   \<and> fst (taylor_maccoll (notebook_globals\<lparr>g_tem2_tesetup := Some \<lparr>m1_attr = None\<rparr>\<rparr>)
            (1 / 10) (PyFloat 2))
       = Inl (NameError ''gamma'')
   \<and> fst (taylor_maccoll bound_globals (1 / 10) (PyFloat 0)) = Inl ZeroDivisionError
   \<and> fst (taylor_maccoll bound_globals (1 / 10) (PyFloat (2 ^ 600))) = Inl OverflowError"
proof -
  have big: "py_square_overflows (2 ^ 600)"
    by (simp add: py_square_overflows_def float_overflow_def)
  show ?thesis
    using big
    by (simp add: taylor_maccoll_outcome namespace_fields notebook_setup bound_setup
          notebook_m1_in_range square_of_small)
qed

end
